theory Spec2Isabelle
  imports Main
begin

section \<open>The user controller of synctalk (server/src/controller/user.js)\<close>

text \<open>
  The controller exports five request handlers: \<open>registerUser\<close>, \<open>loginUser\<close>,
  \<open>updateUser\<close>, \<open>findUsers\<close> and \<open>followUser\<close>. Each one reads the request, talks to
  three collections of the document store (users, follower lists, following lists) and
  either writes a response (\<open>res.status(..).json(..)\<close>) or forwards an error to the
  error middleware (\<open>next(error)\<close>). A handler is modelled as a function from the store
  and the request's fields to an outcome and, where it writes, the new store.

  Identifiers are the hexadecimal strings of the store's object ids, in their canonical
  form (what \<open>_id.toString()\<close> gives). \<open>followUser\<close> and \<open>findUsers\<close> below are the
  handlers for a \<open>userId\<close> written in that form, which the store's cast to an object id
  leaves as it is; \<open>followUser_request\<close> and \<open>findUsers_request\<close> are the same handlers for
  any string in \<open>userId\<close>, with the store's cast written out. The functions of the
  runtime, of the libraries and of the store that the handlers call on strings (the
  lowercase form, the whitespace test, the regular-expression test, the cast to an
  object id, the avatar reference) are arguments of the handlers.
\<close>

subsection \<open>Data model\<close>

type_synonym oid = string

text \<open>
  The stored password. The controller handles it as an opaque value: it is produced by
  the hashing library and only ever passed back to that library's comparison. It is
  modelled symbolically: a value is either a text kept as it was submitted, or the
  salted hash of a text.
\<close>

datatype secret = Plain string | Hashed string string

text \<open>
  Modelled from the spec: the schema of models/User.js, which is not among the sources.
  A user has an identity, a display name, a lowercase username, an email, a password
  and a profile picture reference.
\<close>

record user =
  uid :: oid
  name :: string
  username :: string
  email :: string
  password :: secret
  profilePicture :: string

text \<open>
  What a response carries of a user: the document without \<open>password\<close> and \<open>__v\<close>
  (\<open>const { password: _, __v, ...response } = user.toObject()\<close>, and
  \<open>.select("-password -__v")\<close>).
\<close>

record user_view =
  v_id :: oid
  v_name :: string
  v_username :: string
  v_email :: string
  v_profilePicture :: string

definition sanitized :: "user \<Rightarrow> user_view" where
  "sanitized u =
     \<lparr>v_id = uid u, v_name = name u, v_username = username u, v_email = email u,
      v_profilePicture = profilePicture u\<rparr>"

text \<open>
  Modelled from the spec: models/Post.js is not among the sources; a post is authored
  content, consumed and never changed by this controller.
\<close>

record post =
  author :: oid
  content :: string

text \<open>
  Modelled from the spec: models/Follower.js and models/Following.js are not among the
  sources. There is one follower list per user, holding the identifiers of the users
  following them, and one following list per user, holding the identifiers they follow;
  a list document may be absent. The lists are arrays, in insertion order.
\<close>

record store =
  users :: "user list"
  followers :: "oid \<rightharpoonup> oid list"
  following :: "oid \<rightharpoonup> oid list"
  posts :: "post list"

text \<open>
  Modelled from the spec: \<open>HttpStatusCode\<close> and \<open>CustomError\<close> of lib/util.js are not among
  the sources. The spec gives the status of each kind of error: validation 400,
  unauthorized 401, not found 404, conflict 409; success is 200, creation 201.
\<close>

datatype HttpStatusCode = OK | CREATED | BAD_REQUEST | UNAUTHORIZED | NOT_FOUND | CONFLICT

fun status_number :: "HttpStatusCode \<Rightarrow> nat" where
  "status_number OK = 200"
| "status_number CREATED = 201"
| "status_number BAD_REQUEST = 400"
| "status_number UNAUTHORIZED = 401"
| "status_number NOT_FOUND = 404"
| "status_number CONFLICT = 409"

text \<open>
  What can be thrown inside a handler and reach \<open>next(error)\<close>: the application's
  \<open>CustomError\<close> with its status and message, the runtime's \<open>ReferenceError\<close> for an
  identifier that is not declared, the token library's error, and the store's
  \<open>CastError\<close> for a string that is no object id.
\<close>

datatype js_error =
    CustomError HttpStatusCode string
  | ReferenceError string
  | JsonWebTokenError string
  | CastError string

text \<open>The signed token, symbolically: the payload, the key and the \<open>expiresIn\<close> option.\<close>

record token =
  payload_id :: oid
  payload_username :: string
  signing_key :: string
  expiresIn :: string

text \<open>The JSON bodies the handlers send.\<close>

datatype body =
    Message string
  | ErrorMessage bool string
  | UserJson user_view
  | UsersJson "user_view list"
  | ProfileJson user_view "oid list" "oid list" "post list"
  | LoginJson user_view token

datatype outcome = Respond HttpStatusCode body | Next js_error

subsection \<open>Queries on the store\<close>

definition findById :: "store \<Rightarrow> oid \<Rightarrow> user option" where
  "findById s i = find (\<lambda>u. uid u = i) (users s)"

text \<open>\<open>Followers.findOne({ userId })\<close> and \<open>Following.findOne({ userId })\<close>, and the
  array of the document found or of the one created in its place
  (\<open>new Followers({ userId, followers: [] })\<close>).\<close>

definition followers_of :: "store \<Rightarrow> oid \<Rightarrow> oid list" where
  "followers_of s i = (case followers s i of None \<Rightarrow> [] | Some l \<Rightarrow> l)"

definition following_of :: "store \<Rightarrow> oid \<Rightarrow> oid list" where
  "following_of s i = (case following s i of None \<Rightarrow> [] | Some l \<Rightarrow> l)"

subsection \<open>followUser\<close>

text \<open>
  \<open>followUser\<close> takes \<open>req.user._id\<close> (the actor) and the route parameter \<open>userId\<close> (the
  target). The self-follow test answers 400 directly; a missing target throws the 404
  error; otherwise both lists are loaded or created, the target is looked up in the
  actor's following array, both arrays are filtered or extended, and both documents
  are saved.
\<close>

definition followUser :: "store \<Rightarrow> oid \<Rightarrow> oid \<Rightarrow> outcome \<times> store" where
  "followUser s actor userId =
     (if actor = userId
      then (Respond BAD_REQUEST (ErrorMessage True ''You cannot follow yourself.''), s)
      else
        case findById s userId of
          None \<Rightarrow> (Next (CustomError NOT_FOUND ''User not found''), s)
        | Some userToFollow \<Rightarrow>
            let followerList = followers_of s userId;
                followingList = following_of s actor;
                isFollowing = (userId \<in> set followingList)
            in if isFollowing
               then (Respond OK (Message ''User unfollowed successfully''),
                     s\<lparr>following := (following s)(actor \<mapsto> filter (\<lambda>i. i \<noteq> userId) followingList),
                       followers := (followers s)(userId \<mapsto> filter (\<lambda>i. i \<noteq> actor) followerList)\<rparr>)
               else (Respond OK (Message ''User followed successfully''),
                     s\<lparr>following := (following s)(actor \<mapsto> followingList @ [userId]),
                       followers := (followers s)(userId \<mapsto> followerList @ [actor])\<rparr>))"

text \<open>Requests served one after the other: each toggle starts from the store the
  previous one left.\<close>

fun toggles :: "store \<Rightarrow> (oid \<times> oid) list \<Rightarrow> store" where
  "toggles s [] = s"
| "toggles s ((actor, userId) # rest) = toggles (snd (followUser s actor userId)) rest"

text \<open>The invariant of the data model: B is in A's following list exactly when A is in
  B's follower list.\<close>

definition consistent :: "store \<Rightarrow> bool" where
  "consistent s = (\<forall>a b. (b \<in> set (following_of s a)) = (a \<in> set (followers_of s b)))"

definition succeeded :: "outcome \<Rightarrow> bool" where
  "succeeded r = (case r of Respond st _ \<Rightarrow> st = OK \<or> st = CREATED | Next _ \<Rightarrow> False)"

subsection \<open>Request fields and strings\<close>

text \<open>
  A field of \<open>req.body\<close> or \<open>req.query\<close> is a string or is absent. The handlers test
  fields for truthiness (\<open>!name\<close>, \<open>if (userId)\<close>): an absent field and the empty
  string are both falsy.
\<close>

fun truthy :: "string option \<Rightarrow> bool" where
  "truthy None = False"
| "truthy (Some v) = (v \<noteq> [])"

fun text_of :: "string option \<Rightarrow> string" where
  "text_of None = []"
| "text_of (Some v) = v"

text \<open>
  \<open>String.prototype.toLowerCase\<close> and the test \<open>/\s/\<close> belong to the runtime and cover all
  of Unicode; \<open>registerUser\<close> takes them as arguments. The two functions below are what
  they compute on ASCII text (the letters A to Z, and the six ASCII whitespace
  characters); the examples, all of them ASCII, use them.
\<close>

definition ascii_lower_char :: "char \<Rightarrow> char" where
  "ascii_lower_char c =
     (case map_of (zip ''ABCDEFGHIJKLMNOPQRSTUVWXYZ'' ''abcdefghijklmnopqrstuvwxyz'') c of
        None \<Rightarrow> c
      | Some d \<Rightarrow> d)"

definition ascii_toLowerCase :: "string \<Rightarrow> string" where
  "ascii_toLowerCase str = map ascii_lower_char str"

definition ascii_whitespace :: "char list" where
  "ascii_whitespace = [CHR 0x09, CHR 0x0A, CHR 0x0B, CHR 0x0C, CHR 0x0D, CHR 0x20]"

definition ascii_has_whitespace :: "string \<Rightarrow> bool" where
  "ascii_has_whitespace str = list_ex (\<lambda>c. c \<in> set ascii_whitespace) str"

subsection \<open>registerUser\<close>

text \<open>\<open>User.findOne({ $or: [{ username }, { email }] })\<close> and \<open>User.findOne({ username })\<close>.\<close>

definition findOne_username_or_email :: "store \<Rightarrow> string \<Rightarrow> string \<Rightarrow> user option" where
  "findOne_username_or_email s un em = find (\<lambda>u. username u = un \<or> email u = em) (users s)"

definition findOne_username :: "store \<Rightarrow> string \<Rightarrow> user option" where
  "findOne_username s un = find (\<lambda>u. username u = un) (users s)"

text \<open>
  Modelled from the spec: the save of a new document of models/User.js, which is not
  among the sources. The controller hands the model the password as it was submitted;
  the spec says that register "stores password as a salted hash (never plaintext)", so
  saving replaces a password that is still the submitted text by its salted hash, and
  inserts the document. The salt is the library's random choice, an argument here.
\<close>

definition hash_on_save :: "string \<Rightarrow> user \<Rightarrow> user" where
  "hash_on_save salt u =
     (case password u of
        Plain p \<Rightarrow> u\<lparr>password := Hashed salt p\<rparr>
      | Hashed _ _ \<Rightarrow> u)"

definition User_save :: "string \<Rightarrow> store \<Rightarrow> user \<Rightarrow> user \<times> store" where
  "User_save salt s u =
     (let saved = hash_on_save salt u in (saved, s\<lparr>users := users s @ [saved]\<rparr>))"

text \<open>
  \<open>registerUser\<close>. The runtime's \<open>toLowerCase\<close> and its test \<open>/\s/\<close> (\<open>has_whitespace\<close>) are
  arguments; \<open>getGravatar\<close> (lib/util.js, not among the sources) is an argument, and so
  are the identifier that \<open>new User\<close> gives the document and the salt. The four fields
  are those destructured from \<open>req.body\<close>, each a string or absent.
\<close>

definition registerUser ::
  "(string \<Rightarrow> string) \<Rightarrow> (string \<Rightarrow> bool) \<Rightarrow> (string \<Rightarrow> string) \<Rightarrow> oid \<Rightarrow> string \<Rightarrow> store \<Rightarrow>
   string option \<Rightarrow> string option \<Rightarrow> string option \<Rightarrow> string option \<Rightarrow> outcome \<times> store" where
  "registerUser toLowerCase has_whitespace getGravatar new_id salt s
     name_f username_f password_f email_f =
     (if \<not> truthy name_f \<or> \<not> truthy username_f \<or> \<not> truthy password_f \<or> \<not> truthy email_f
      then (Next (CustomError BAD_REQUEST
                    ''Fields are required (name, username, password, email)''), s)
      else
        let un = text_of username_f; em = text_of email_f in
        if un \<noteq> toLowerCase un \<or> has_whitespace un
        then (Next (CustomError BAD_REQUEST
                      ''Username must be lowercase and cannot contain spaces''), s)
        else
          case findOne_username_or_email s un em of
            Some existingUser \<Rightarrow>
              (Next (CustomError CONFLICT ''Username or email already exists''), s)
          | None \<Rightarrow>
              let newUser = \<lparr>uid = new_id, name = text_of name_f, username = un, email = em,
                             password = Plain (text_of password_f),
                             profilePicture = getGravatar em\<rparr>;
                  (savedUser, s1) = User_save salt s newUser;
                  s2 = s1\<lparr>followers := (followers s1)(uid savedUser \<mapsto> []),
                          following := (following s1)(uid savedUser \<mapsto> [])\<rparr>
              in (Respond CREATED (UserJson (sanitized savedUser)), s2))"

subsection \<open>loginUser\<close>

text \<open>\<open>bcrypt.compare(password, user.password)\<close>: true when the stored value is a hash of
  the submitted text, false otherwise (also for a stored value that is no hash).\<close>

fun bcrypt_compare :: "string \<Rightarrow> secret \<Rightarrow> bool" where
  "bcrypt_compare pw (Hashed salt p) = (pw = p)"
| "bcrypt_compare pw (Plain p) = False"

text \<open>\<open>jwt.sign(payload, process.env.JWT_SECRET, { expiresIn }, callback)\<close>: without a
  key the library reports an error, which the callback throws.\<close>

definition jwt_sign :: "oid \<times> string \<Rightarrow> string option \<Rightarrow> string \<Rightarrow> js_error + token" where
  "jwt_sign payload secretOrPrivateKey expires =
     (if \<not> truthy secretOrPrivateKey
      then Inl (JsonWebTokenError ''secretOrPrivateKey must have a value'')
      else Inr \<lparr>payload_id = fst payload, payload_username = snd payload,
                signing_key = text_of secretOrPrivateKey, expiresIn = expires\<rparr>)"

text \<open>How the token library reads a time span written as a decimal number of hours
  (\<open>"300h"\<close>), the only form the controller uses: the seconds it stands for.\<close>

definition digit_value :: "char \<Rightarrow> nat option" where
  "digit_value c = map_of (zip ''0123456789'' [0, 1, 2, 3, 4, 5, 6, 7, 8, 9]) c"

fun decimal :: "nat \<Rightarrow> string \<Rightarrow> nat option" where
  "decimal acc [] = Some acc"
| "decimal acc (c # cs) =
     (case digit_value c of None \<Rightarrow> None | Some d \<Rightarrow> decimal (10 * acc + d) cs)"

definition timespan_seconds :: "string \<Rightarrow> nat option" where
  "timespan_seconds str =
     (if length str < 2 \<or> last str \<noteq> CHR ''h'' then None
      else map_option (\<lambda>n. n * 3600) (decimal 0 (butlast str)))"

definition loginUser :: "string option \<Rightarrow> store \<Rightarrow> string \<Rightarrow> string \<Rightarrow> outcome" where
  "loginUser JWT_SECRET s username_f password_f =
     (case findOne_username s username_f of
        None \<Rightarrow> Next (CustomError NOT_FOUND ''User not found'')
      | Some u \<Rightarrow>
          if \<not> bcrypt_compare password_f (password u)
          then Next (CustomError UNAUTHORIZED ''Invalid credentials'')
          else
            (case jwt_sign (uid u, username u) JWT_SECRET ''300h'' of
               Inl err \<Rightarrow> Next err
             | Inr tok \<Rightarrow> Respond OK (LoginJson (sanitized u) tok)))"

subsection \<open>updateUser\<close>

text \<open>
  Lines 120 to 128: the assignments to the document that \<open>findById\<close> returned, in memory.
  \<open>file_path\<close> is \<open>req.file.path\<close> when the request carries a file; the three fields are
  those destructured from \<open>req.body\<close>: \<open>const { name, username, email } = req.body\<close>.
\<close>

definition updateUser_assign ::
  "string option \<Rightarrow> string option \<Rightarrow> string option \<Rightarrow> string option \<Rightarrow> user \<Rightarrow> user" where
  "updateUser_assign file_path name_f username_f email_f u =
     (let u1 = (case file_path of None \<Rightarrow> u | Some path \<Rightarrow> u\<lparr>profilePicture := path\<rparr>);
          u2 = (if truthy name_f then u1\<lparr>name := text_of name_f\<rparr> else u1);
          u3 = (if truthy username_f then u2\<lparr>username := text_of username_f\<rparr> else u2);
          u4 = (if truthy email_f then u3\<lparr>email := text_of email_f\<rparr> else u3)
      in u4)"

text \<open>
  \<open>updateUser\<close>. After the assignments, line 129 evaluates \<open>if (password)\<close>. No
  \<open>password\<close> is declared in the handler (line 125 destructures \<open>name\<close>, \<open>username\<close> and
  \<open>email\<close> only) nor in the module, so the evaluation throws a \<open>ReferenceError\<close>; the
  \<open>catch\<close> forwards it, and \<open>user.save()\<close> on line 131 is not reached: the assignments
  are lost with the in-memory document.
\<close>

definition updateUser ::
  "store \<Rightarrow> oid \<Rightarrow> string option \<Rightarrow> string option \<Rightarrow> string option \<Rightarrow> string option \<Rightarrow>
   outcome \<times> store" where
  "updateUser s user_id file_path name_f username_f email_f =
     (case findById s user_id of
        None \<Rightarrow> (Next (CustomError NOT_FOUND ''User not found''), s)
      | Some u \<Rightarrow>
          let u' = updateUser_assign file_path name_f username_f email_f u
          in (Next (ReferenceError ''password is not defined''), s))"

subsection \<open>findUsers\<close>

text \<open>
  Modelled from the spec: \<open>user.getPosts()\<close> is a method of models/User.js, which is not
  among the sources; the lookup by id is "augmented with follower/following lists and
  posts", the posts the user authored.
\<close>

definition getPosts :: "store \<Rightarrow> user \<Rightarrow> post list" where
  "getPosts s u = filter (\<lambda>p. author p = uid u) (posts s)"

text \<open>
  \<open>findUsers\<close>. The store's test \<open>{ $regex: username, $options: "i" }\<close> is the argument
  \<open>regex_i pattern text\<close>; \<open>caller\<close> is \<open>req.user._id\<close>; \<open>userId\<close> and \<open>username\<close> are the
  fields of \<open>req.query\<close>.
\<close>

definition findUsers ::
  "(string \<Rightarrow> string \<Rightarrow> bool) \<Rightarrow> store \<Rightarrow> oid \<Rightarrow> string option \<Rightarrow> string option \<Rightarrow> outcome" where
  "findUsers regex_i s caller userId username_f =
     (if truthy userId then
        (case findById s (text_of userId) of
           None \<Rightarrow> Respond NOT_FOUND (Message ''User not found'')
         | Some u \<Rightarrow>
             let followerList = followers s (text_of userId);
                 followingList = following s (text_of userId)
             in Respond OK
                  (ProfileJson (sanitized u)
                     (case followingList of None \<Rightarrow> [] | Some l \<Rightarrow> l)
                     (case followerList of None \<Rightarrow> [] | Some l \<Rightarrow> l)
                     (getPosts s u)))
      else if truthy username_f then
        (let found = filter (\<lambda>u. regex_i (text_of username_f) (username u) \<and> uid u \<noteq> caller)
                       (users s)
         in if length found = 0
            then Respond NOT_FOUND (Message ''No users found'')
            else Respond OK (UsersJson (map sanitized found)))
      else
        Respond OK (UsersJson (map sanitized (filter (\<lambda>u. uid u \<noteq> caller) (users s)))))"

text \<open>The store's regular-expression test for an ASCII pattern without
  metacharacters, case insensitive, on ASCII text: the pattern occurs somewhere in the
  text.\<close>

fun starts_with :: "string \<Rightarrow> string \<Rightarrow> bool" where
  "starts_with [] str = True"
| "starts_with (p # ps) [] = False"
| "starts_with (p # ps) (c # cs) = (p = c \<and> starts_with ps cs)"

fun occurs_in :: "string \<Rightarrow> string \<Rightarrow> bool" where
  "occurs_in pat [] = (pat = [])"
| "occurs_in pat (c # cs) = (starts_with pat (c # cs) \<or> occurs_in pat cs)"

definition literal_regex_i :: "string \<Rightarrow> string \<Rightarrow> bool" where
  "literal_regex_i pat str = occurs_in (ascii_toLowerCase pat) (ascii_toLowerCase str)"

subsection \<open>The handlers on any string in \<open>userId\<close>\<close>

text \<open>
  \<open>User.findById(userId)\<close> casts the string to an object id before it looks the document
  up: a string that is no object id makes the store throw its \<open>CastError\<close>, which the
  handler's \<open>catch\<close> forwards, and a string that is one is looked up under the id's
  canonical form, however the string spelled it. The cast is the argument \<open>cast\<close>.

  \<open>findUsers_request\<close> is \<open>findUsers\<close> with the cast in its lookup by id (lines 146 to 163);
  the other two modes do not read \<open>userId\<close>.
\<close>

definition findUsers_request ::
  "(string \<Rightarrow> oid option) \<Rightarrow> (string \<Rightarrow> string \<Rightarrow> bool) \<Rightarrow> store \<Rightarrow> oid \<Rightarrow>
   string option \<Rightarrow> string option \<Rightarrow> outcome" where
  "findUsers_request cast regex_i s caller userId username_f =
     (if truthy userId then
        (case cast (text_of userId) of
           None \<Rightarrow> Next (CastError (text_of userId))
         | Some i \<Rightarrow>
             (case findById s i of
                None \<Rightarrow> Respond NOT_FOUND (Message ''User not found'')
              | Some u \<Rightarrow>
                  let followerList = followers s i;
                      followingList = following s i
                  in Respond OK
                       (ProfileJson (sanitized u)
                          (case followingList of None \<Rightarrow> [] | Some l \<Rightarrow> l)
                          (case followerList of None \<Rightarrow> [] | Some l \<Rightarrow> l)
                          (getPosts s u))))
      else findUsers regex_i s caller userId username_f)"

text \<open>
  \<open>followUser_request\<close> is \<open>followUser\<close> for any string in the route parameter. The
  self-follow test of line 195 compares the actor's id with the string as the route
  gave it; the lookup of line 203 goes through the cast.

  Modelled from the spec: the list documents (models/Follower.js and
  models/Following.js, not among the sources) hold "user-identifiers", object ids: the
  store casts the string where a list document is looked up or created under it
  (line 209) and where it is pushed to a list (line 232), while the tests of lines 220
  and 225 compare the string itself with the ids of the list.
\<close>

definition followUser_request ::
  "(string \<Rightarrow> oid option) \<Rightarrow> store \<Rightarrow> oid \<Rightarrow> string \<Rightarrow> outcome \<times> store" where
  "followUser_request cast s actor userId =
     (if actor = userId
      then (Respond BAD_REQUEST (ErrorMessage True ''You cannot follow yourself.''), s)
      else
        case cast userId of
          None \<Rightarrow> (Next (CastError userId), s)
        | Some target \<Rightarrow>
            (case findById s target of
               None \<Rightarrow> (Next (CustomError NOT_FOUND ''User not found''), s)
             | Some userToFollow \<Rightarrow>
                 let followerList = followers_of s target;
                     followingList = following_of s actor;
                     isFollowing = (userId \<in> set followingList)
                 in if isFollowing
                    then (Respond OK (Message ''User unfollowed successfully''),
                          s\<lparr>following :=
                              (following s)(actor \<mapsto> filter (\<lambda>i. i \<noteq> userId) followingList),
                            followers :=
                              (followers s)(target \<mapsto> filter (\<lambda>i. i \<noteq> actor) followerList)\<rparr>)
                    else (Respond OK (Message ''User followed successfully''),
                          s\<lparr>following := (following s)(actor \<mapsto> followingList @ [target]),
                            followers := (followers s)(target \<mapsto> followerList @ [actor])\<rparr>)))"

text \<open>The store's cast on a string of 24 hexadecimal digits, the written form of an
  object id: the id in its canonical form, with the digits a to f in lowercase. The
  examples use it, on strings of 24 hexadecimal digits and on a string of two letters,
  which is no object id.\<close>

definition hex_digit :: "char \<Rightarrow> bool" where
  "hex_digit c = (c \<in> set ''0123456789abcdefABCDEF'')"

definition hex24_cast :: "string \<Rightarrow> oid option" where
  "hex24_cast str =
     (if length str = 24 \<and> list_all hex_digit str then Some (ascii_toLowerCase str) else None)"

subsection \<open>Example data\<close>

definition kim :: user where
  "kim = \<lparr>uid = ''65a1b2c3d4e5f60718293a4b'', name = ''Kim'', username = ''kim'',
          email = ''kim@x.com'', password = Hashed ''s4'' ''pw000'',
          profilePicture = ''avatar/kim@x.com''\<rparr>"

definition kim_alone :: store where
  "kim_alone = \<lparr>users = [kim], followers = (\<lambda>i. None), following = (\<lambda>i. None), posts = []\<rparr>"

definition jon :: user where
  "jon = \<lparr>uid = ''65a1'', name = ''Jon'', username = ''jon'', email = ''jon@x.com'',
          password = Hashed ''s1'' ''pw123'', profilePicture = ''avatar/jon@x.com''\<rparr>"

definition amy :: user where
  "amy = \<lparr>uid = ''65a2'', name = ''Amy'', username = ''amy'', email = ''amy@x.com'',
          password = Hashed ''s2'' ''secret'', profilePicture = ''avatar/amy@x.com''\<rparr>"

definition no_lists :: "oid \<rightharpoonup> oid list" where
  "no_lists = (\<lambda>i. None)"

definition empty_store :: store where
  "empty_store = \<lparr>users = [], followers = no_lists, following = no_lists, posts = []\<rparr>"

definition two_users :: store where
  "two_users = \<lparr>users = [jon, amy], followers = no_lists, following = no_lists, posts = []\<rparr>"

definition avatar :: "string \<Rightarrow> string" where
  "avatar em = ''avatar/'' @ em"

section \<open>Properties of followUser\<close>

lemma followUser_succeeded_iff:
  "succeeded (fst (followUser s a b)) = (a \<noteq> b \<and> findById s b \<noteq> None)"
  by (auto simp: followUser_def succeeded_def Let_def split: option.splits)




lemma following_of_followUser:
  assumes "succeeded (fst (followUser s a b))"
  shows "following_of (snd (followUser s a b)) x =
     (if x = a then (if b \<in> set (following_of s a) then filter (\<lambda>i. i \<noteq> b) (following_of s a)
                     else following_of s a @ [b])
      else following_of s x)"
  using assms
  by (auto simp: followUser_def succeeded_def following_of_def Let_def split: option.splits if_splits)

lemma followers_of_followUser:
  assumes "succeeded (fst (followUser s a b))"
  shows "followers_of (snd (followUser s a b)) y =
     (if y = b then (if b \<in> set (following_of s a) then filter (\<lambda>i. i \<noteq> a) (followers_of s b)
                     else followers_of s b @ [a])
      else followers_of s y)"
  using assms
  by (auto simp: followUser_def succeeded_def followers_of_def following_of_def Let_def split: option.splits if_splits)

lemma followUser_failed:
  assumes "\<not> succeeded (fst (followUser s a b))"
  shows "snd (followUser s a b) = s"
  using assms
  by (auto simp: followUser_def succeeded_def Let_def split: option.splits if_splits)

lemma followUser_pair:
  assumes "succeeded (fst (followUser s a b))"
  shows "(b \<in> set (following_of (snd (followUser s a b)) a)) = (a \<in> set (followers_of (snd (followUser s a b)) b))"
  by (simp add: following_of_followUser[OF assms] followers_of_followUser[OF assms])

lemma followUser_consistent:
  assumes "consistent s"
  shows "consistent (snd (followUser s a b))"
proof (cases "succeeded (fst (followUser s a b))")
  case False
  then show ?thesis using assms by (simp add: followUser_failed)
next
  case True
  have inv: "\<And>x y. (y \<in> set (following_of s x)) = (x \<in> set (followers_of s y))"
    using assms by (simp add: consistent_def)
  show ?thesis
    unfolding consistent_def
    by (auto simp: following_of_followUser[OF True] followers_of_followUser[OF True] inv)
qed

lemma toggles_consistent: "consistent s \<Longrightarrow> consistent (toggles s ps)"
  by (induction s ps rule: toggles.induct) (auto intro: followUser_consistent)


text \<open>
  Claim C1. After a toggle that succeeded, the target is in the actor's following list
  exactly when the actor is in the target's follower list, whatever the store was
  before; and a store in which every pair of users is consistent stays so after any
  sequence of toggles served one after the other, failed ones included.
\<close>
theorem followUser_bidirectional:
  "(succeeded (fst (followUser s a b)) \<longrightarrow>
      (b \<in> set (following_of (snd (followUser s a b)) a))
        = (a \<in> set (followers_of (snd (followUser s a b)) b)))
   \<and> (consistent s \<longrightarrow> consistent (toggles s ps))"
  using followUser_pair toggles_consistent by blast

lemma consistent_two_users: "consistent two_users"
  by (simp add: consistent_def two_users_def no_lists_def following_of_def followers_of_def)

lemma findById_two_users: "findById two_users ''65a1'' = Some jon" "findById two_users ''65a2'' = Some amy"
  "findById two_users ''65a9'' = None"
  by (simp_all add: findById_def two_users_def jon_def amy_def)

theorem followUser_bidirectional_witness:
  "succeeded (fst (followUser two_users ''65a1'' ''65a2''))
   \<and> ''65a2'' \<in> set (following_of (snd (followUser two_users ''65a1'' ''65a2'')) ''65a1'')
   \<and> ''65a1'' \<in> set (followers_of (snd (followUser two_users ''65a1'' ''65a2'')) ''65a2'')
   \<and> consistent two_users
   \<and> consistent (toggles two_users
        [(''65a1'', ''65a2''), (''65a2'', ''65a1''), (''65a1'', ''65a1''), (''65a1'', ''65a2''), (''65a2'', ''65a9'')])"
proof -
  have ok: "succeeded (fst (followUser two_users ''65a1'' ''65a2''))"
    by (simp add: followUser_succeeded_iff findById_two_users)
  have none: "following_of two_users ''65a1'' = []"
    by (simp add: following_of_def two_users_def no_lists_def)
  have mem: "''65a2'' \<in> set (following_of (snd (followUser two_users ''65a1'' ''65a2'')) ''65a1'')"
    by (simp add: following_of_followUser[OF ok] none)
  show ?thesis
    using followUser_bidirectional[of two_users "''65a1''" "''65a2''"
       "[(''65a1'', ''65a2''), (''65a2'', ''65a1''), (''65a1'', ''65a1''), (''65a1'', ''65a2''), (''65a2'', ''65a9'')]"]
      ok mem consistent_two_users
    by simp
qed



text \<open>
  A toggle whose route parameter is the actor's id, letter for letter, is answered with
  status 400 and the message of the self-follow test, and the store is returned as it
  was.
\<close>
lemma followUser_same_string:
  "followUser s a a = (Respond BAD_REQUEST (ErrorMessage True ''You cannot follow yourself.''), s)
   \<and> status_number BAD_REQUEST = 400"
  by (simp add: followUser_def)

text \<open>
  Claim C9. The self-follow test comes before the lookup of the target: when no user
  has the actor's identifier, a toggle of the actor on themselves is still answered
  with the 400 of the self-follow test, never with the not-found error.
\<close>
theorem self_follow_precedes_lookup:
  assumes "findById s a = None"
  shows "fst (followUser s a a) = Respond BAD_REQUEST (ErrorMessage True ''You cannot follow yourself.'')
     \<and> (\<forall>m. fst (followUser s a a) \<noteq> Next (CustomError NOT_FOUND m))
     \<and> snd (followUser s a a) = s"
  by (simp add: followUser_def)

theorem self_follow_precedes_lookup_witness:
  "findById empty_store ''65a1'' = None
   \<and> fst (followUser empty_store ''65a1'' ''65a1'')
       = Respond BAD_REQUEST (ErrorMessage True ''You cannot follow yourself.'')
   \<and> fst (followUser empty_store ''65a1'' ''65a2'') = Next (CustomError NOT_FOUND ''User not found'')"
proof -
  have h: "findById empty_store ''65a1'' = None"
    by (simp add: findById_def empty_store_def)
  have other: "fst (followUser empty_store ''65a1'' ''65a2'') = Next (CustomError NOT_FOUND ''User not found'')"
    by (simp add: followUser_def findById_def empty_store_def)
  show ?thesis
    using self_follow_precedes_lookup[OF h] h other by simp
qed

section \<open>Properties of followUser on any route parameter\<close>

text \<open>On a route parameter that the cast leaves as it is, \<open>followUser_request\<close> is
  \<open>followUser\<close>.\<close>

lemma followUser_request_canonical:
  assumes "cast userId = Some userId"
  shows "followUser_request cast s actor userId = followUser s actor userId"
  using assms by (simp add: followUser_request_def followUser_def)

lemma hex24_cast_upper:
  "hex24_cast ''65A1B2C3D4E5F60718293A4B'' = Some ''65a1b2c3d4e5f60718293a4b''"
  by (simp add: hex24_cast_def hex_digit_def ascii_toLowerCase_def ascii_lower_char_def)

lemma findById_kim: "findById kim_alone ''65a1b2c3d4e5f60718293a4b'' = Some kim"
  by (simp add: findById_def kim_alone_def kim_def)

text \<open>
  Claim C7. A toggle of an actor on themselves is to fail with status 400 and leave the
  store as it was. With kim stored and kim the actor, a route parameter that writes
  kim's id with its letters in upper case is another string than the actor's id, so
  the self-follow test of line 195 lets it pass; the cast gives kim's id, the lookup
  of line 203 finds kim, and the handler answers 200 and writes kim into kim's own
  following list and follower list. The same request with the id in lower case is
  answered 400.
\<close>
theorem followUser_request_self_follow:
  "uid kim = ''65a1b2c3d4e5f60718293a4b''
   \<and> hex24_cast ''65A1B2C3D4E5F60718293A4B'' = Some (uid kim)
   \<and> findById kim_alone (uid kim) = Some kim
   \<and> fst (followUser_request hex24_cast kim_alone (uid kim) ''65A1B2C3D4E5F60718293A4B'')
       = Respond OK (Message ''User followed successfully'')
   \<and> following_of
        (snd (followUser_request hex24_cast kim_alone (uid kim) ''65A1B2C3D4E5F60718293A4B''))
        (uid kim) = [uid kim]
   \<and> followers_of
        (snd (followUser_request hex24_cast kim_alone (uid kim) ''65A1B2C3D4E5F60718293A4B''))
        (uid kim) = [uid kim]
   \<and> followUser_request hex24_cast kim_alone (uid kim) ''65a1b2c3d4e5f60718293a4b''
       = (Respond BAD_REQUEST (ErrorMessage True ''You cannot follow yourself.''), kim_alone)"
proof -
  have id: "uid kim = ''65a1b2c3d4e5f60718293a4b''"
    by (simp add: kim_def)
  have fresh: "following_of kim_alone ''65a1b2c3d4e5f60718293a4b'' = []"
    "followers_of kim_alone ''65a1b2c3d4e5f60718293a4b'' = []"
    by (simp_all add: following_of_def followers_of_def kim_alone_def)
  have run: "followUser_request hex24_cast kim_alone
               ''65a1b2c3d4e5f60718293a4b'' ''65A1B2C3D4E5F60718293A4B''
      = (Respond OK (Message ''User followed successfully''),
         kim_alone\<lparr>following := (following kim_alone)
                       (''65a1b2c3d4e5f60718293a4b'' \<mapsto> [''65a1b2c3d4e5f60718293a4b'']),
                   followers := (followers kim_alone)
                       (''65a1b2c3d4e5f60718293a4b'' \<mapsto> [''65a1b2c3d4e5f60718293a4b''])\<rparr>)"
    by (simp add: followUser_request_def hex24_cast_upper findById_kim fresh)
  have same: "followUser_request hex24_cast kim_alone
                ''65a1b2c3d4e5f60718293a4b'' ''65a1b2c3d4e5f60718293a4b''
      = (Respond BAD_REQUEST (ErrorMessage True ''You cannot follow yourself.''), kim_alone)"
    by (simp add: followUser_request_def)
  show ?thesis
    by (simp add: id hex24_cast_upper findById_kim run same following_of_def followers_of_def)
qed

section \<open>Properties of registerUser\<close>

lemma lower_jon:
  "ascii_toLowerCase ''jon'' = ''jon''" "ascii_toLowerCase ''Jon'' = ''jon''"
  "ascii_toLowerCase ''bob'' = ''bob''"
  by (simp_all add: ascii_toLowerCase_def ascii_lower_char_def)

lemma no_space_jon:
  "\<not> ascii_has_whitespace ''jon''" "\<not> ascii_has_whitespace ''bob''"
  "\<not> ascii_has_whitespace ''Jon''"
  by (simp_all add: ascii_has_whitespace_def ascii_whitespace_def)

lemma findOne_None_iff:
  "(findOne_username_or_email s un em = None) =
   (\<not> (\<exists>u. u \<in> set (users s) \<and> (username u = un \<or> email u = em)))"
  by (auto simp: findOne_username_or_email_def find_None_iff)

lemma registerUser_missing:
  assumes "\<not> (truthy n \<and> truthy un \<and> truthy pw \<and> truthy em)"
  shows "registerUser lc ws g i salt s n un pw em =
     (Next (CustomError BAD_REQUEST ''Fields are required (name, username, password, email)''), s)"
  using assms by (auto simp: registerUser_def)

lemma registerUser_bad_username:
  assumes "truthy n" "truthy un" "truthy pw" "truthy em"
    and "text_of un \<noteq> lc (text_of un) \<or> ws (text_of un)"
  shows "registerUser lc ws g i salt s n un pw em =
     (Next (CustomError BAD_REQUEST ''Username must be lowercase and cannot contain spaces''), s)"
  using assms by (auto simp: registerUser_def Let_def)

lemma registerUser_conflict:
  assumes "truthy n" "truthy un" "truthy pw" "truthy em"
    and "text_of un = lc (text_of un)" "\<not> ws (text_of un)"
    and "findOne_username_or_email s (text_of un) (text_of em) \<noteq> None"
  shows "registerUser lc ws g i salt s n un pw em =
     (Next (CustomError CONFLICT ''Username or email already exists''), s)"
  using assms by (auto simp: registerUser_def Let_def split: option.splits)

lemma registerUser_created:
  assumes "truthy n" "truthy un" "truthy pw" "truthy em"
    and "text_of un = lc (text_of un)" "\<not> ws (text_of un)"
    and "findOne_username_or_email s (text_of un) (text_of em) = None"
  shows "registerUser lc ws g i salt s n un pw em =
     (Respond CREATED
        (UserJson \<lparr>v_id = i, v_name = text_of n, v_username = text_of un,
                   v_email = text_of em, v_profilePicture = g (text_of em)\<rparr>),
      s\<lparr>users := users s @ [\<lparr>uid = i, name = text_of n, username = text_of un,
                              email = text_of em, password = Hashed salt (text_of pw),
                              profilePicture = g (text_of em)\<rparr>],
        followers := (followers s)(i \<mapsto> []),
        following := (following s)(i \<mapsto> [])\<rparr>)"
  using assms
  by (simp add: registerUser_def Let_def User_save_def hash_on_save_def sanitized_def)

text \<open>
  Claim C5. Whatever the runtime's lowercase form \<open>lc\<close> and whitespace test \<open>ws\<close> are: for
  a registration whose four fields are present, whose username is its own lowercase
  form and has no whitespace, and whose username and email belong to no stored user,
  the handler answers 201 with the new user without its password, appends the user to
  the collection and creates both of its lists, empty; the password stored for the new
  user is the salted hash of the submitted text, not the text.
\<close>
theorem registerUser_valid:
  assumes "truthy n" and "truthy un" and "truthy pw" and "truthy em"
    and "text_of un = lc (text_of un)" and "\<not> ws (text_of un)"
    and "\<not> (\<exists>u. u \<in> set (users s) \<and> (username u = text_of un \<or> email u = text_of em))"
  shows "fst (registerUser lc ws g i salt s n un pw em) =
       Respond CREATED
         (UserJson \<lparr>v_id = i, v_name = text_of n, v_username = text_of un,
                    v_email = text_of em, v_profilePicture = g (text_of em)\<rparr>)
     \<and> users (snd (registerUser lc ws g i salt s n un pw em)) =
         users s @ [\<lparr>uid = i, name = text_of n, username = text_of un, email = text_of em,
                      password = Hashed salt (text_of pw), profilePicture = g (text_of em)\<rparr>]
     \<and> password (last (users (snd (registerUser lc ws g i salt s n un pw em))))
         \<noteq> Plain (text_of pw)
     \<and> followers (snd (registerUser lc ws g i salt s n un pw em)) i = Some []
     \<and> following (snd (registerUser lc ws g i salt s n un pw em)) i = Some []"
proof -
  have fresh: "findOne_username_or_email s (text_of un) (text_of em) = None"
    using assms(7) by (simp add: findOne_None_iff)
  have created: "registerUser lc ws g i salt s n un pw em =
     (Respond CREATED
        (UserJson \<lparr>v_id = i, v_name = text_of n, v_username = text_of un,
                   v_email = text_of em, v_profilePicture = g (text_of em)\<rparr>),
      s\<lparr>users := users s @ [\<lparr>uid = i, name = text_of n, username = text_of un,
                              email = text_of em, password = Hashed salt (text_of pw),
                              profilePicture = g (text_of em)\<rparr>],
        followers := (followers s)(i \<mapsto> []),
        following := (following s)(i \<mapsto> [])\<rparr>)"
    using assms(1-6) fresh
    by (rule registerUser_created[where lc = lc and ws = ws])
  show ?thesis
    by (simp add: created)
qed

lemma two_users_fresh_bob:
  "\<not> (\<exists>u. u \<in> set (users two_users) \<and> (username u = ''bob'' \<or> email u = ''bob@x.com''))"
  by (auto simp: two_users_def jon_def amy_def)

theorem registerUser_valid_witness:
  "truthy (Some ''Bob'') \<and> truthy (Some ''bob'') \<and> truthy (Some ''pw789'')
   \<and> truthy (Some ''bob@x.com'')
   \<and> ''bob'' = ascii_toLowerCase ''bob'' \<and> \<not> ascii_has_whitespace ''bob''
   \<and> fst (registerUser ascii_toLowerCase ascii_has_whitespace avatar ''65a3'' ''s3'' two_users
              (Some ''Bob'') (Some ''bob'') (Some ''pw789'') (Some ''bob@x.com'')) =
       Respond CREATED
         (UserJson \<lparr>v_id = ''65a3'', v_name = ''Bob'', v_username = ''bob'',
                    v_email = ''bob@x.com'', v_profilePicture = ''avatar/bob@x.com''\<rparr>)
   \<and> password (last (users (snd (registerUser ascii_toLowerCase ascii_has_whitespace avatar
              ''65a3'' ''s3'' two_users
              (Some ''Bob'') (Some ''bob'') (Some ''pw789'') (Some ''bob@x.com'')))))
       = Hashed ''s3'' ''pw789''"
proof -
  have h5: "text_of (Some ''bob'') = ascii_toLowerCase (text_of (Some ''bob''))"
    by (simp add: lower_jon)
  have h6: "\<not> ascii_has_whitespace (text_of (Some ''bob''))"
    by (simp add: no_space_jon)
  have h7: "\<not> (\<exists>u. u \<in> set (users two_users) \<and>
              (username u = text_of (Some ''bob'') \<or> email u = text_of (Some ''bob@x.com'')))"
    using two_users_fresh_bob by simp
  have t: "truthy (Some ''Bob'')" "truthy (Some ''bob'')" "truthy (Some ''pw789'')"
    "truthy (Some ''bob@x.com'')"
    by simp_all
  show ?thesis
    using t h5 h6 h7
      registerUser_valid[where lc = ascii_toLowerCase and ws = ascii_has_whitespace
        and n = "Some ''Bob''" and un = "Some ''bob''" and pw = "Some ''pw789''"
        and em = "Some ''bob@x.com''" and s = two_users
        and g = avatar and i = "''65a3''" and salt = "''s3''"]
    by (simp add: lower_jon no_space_jon avatar_def)
qed

text \<open>
  The two tests on the fields come before the lookup of an existing user. With jon
  stored, a registration under jon's email with the username written \<open>Jon\<close> is refused
  by the username test, and one under jon's username and email without a name is
  refused by the test of the required fields: both with status 400, not 409.
\<close>
theorem registerUser_duplicate_counterexample:
  "jon \<in> set (users two_users) \<and> email jon = ''jon@x.com''
   \<and> username jon = ascii_toLowerCase ''Jon''
   \<and> fst (registerUser ascii_toLowerCase ascii_has_whitespace avatar ''65a3'' ''s3'' two_users
             (Some ''Jon Two'') (Some ''Jon'') (Some ''pw456'') (Some ''jon@x.com''))
       = Next (CustomError BAD_REQUEST ''Username must be lowercase and cannot contain spaces'')
   \<and> fst (registerUser ascii_toLowerCase ascii_has_whitespace avatar ''65a3'' ''s3'' two_users
             None (Some ''jon'') (Some ''pw456'') (Some ''jon@x.com''))
       = Next (CustomError BAD_REQUEST ''Fields are required (name, username, password, email)'')
   \<and> BAD_REQUEST \<noteq> CONFLICT"
proof -
  have a: "jon \<in> set (users two_users)" by (simp add: two_users_def)
  have b: "email jon = ''jon@x.com''" "username jon = ascii_toLowerCase ''Jon''"
    by (simp_all add: jon_def lower_jon)
  have c: "registerUser ascii_toLowerCase ascii_has_whitespace avatar ''65a3'' ''s3'' two_users
             (Some ''Jon Two'') (Some ''Jon'') (Some ''pw456'') (Some ''jon@x.com'')
       = (Next (CustomError BAD_REQUEST
                  ''Username must be lowercase and cannot contain spaces''), two_users)"
    by (rule registerUser_bad_username) (simp_all add: lower_jon)
  have d: "registerUser ascii_toLowerCase ascii_has_whitespace avatar ''65a3'' ''s3'' two_users
             None (Some ''jon'') (Some ''pw456'') (Some ''jon@x.com'')
       = (Next (CustomError BAD_REQUEST
                  ''Fields are required (name, username, password, email)''), two_users)"
    by (rule registerUser_missing) simp
  show ?thesis using a b by (simp add: c d)
qed

text \<open>
  Claim C4, as amended. Whatever the runtime's lowercase form \<open>lc\<close> and whitespace test
  \<open>ws\<close> are, when the submitted username or email is that of a stored user: a
  registration with all four fields present and a username that is its own lowercase
  form and has no whitespace fails with the conflict error (409) and leaves the store
  as it was; one whose username differs from its lowercase form or has whitespace fails
  with the validation error (400) of the username test; one with a missing field fails
  with the validation error (400) of the required fields.
\<close>
theorem registerUser_duplicate:
  assumes "u \<in> set (users s)" and "username u = text_of un \<or> email u = text_of em"
  shows "(truthy n \<and> truthy un \<and> truthy pw \<and> truthy em
          \<and> text_of un = lc (text_of un) \<and> \<not> ws (text_of un)
        \<longrightarrow> registerUser lc ws g i salt s n un pw em =
             (Next (CustomError CONFLICT ''Username or email already exists''), s))
     \<and> (truthy n \<and> truthy un \<and> truthy pw \<and> truthy em
          \<and> (text_of un \<noteq> lc (text_of un) \<or> ws (text_of un))
        \<longrightarrow> registerUser lc ws g i salt s n un pw em =
             (Next (CustomError BAD_REQUEST
                      ''Username must be lowercase and cannot contain spaces''), s))
     \<and> (\<not> (truthy n \<and> truthy un \<and> truthy pw \<and> truthy em)
        \<longrightarrow> registerUser lc ws g i salt s n un pw em =
             (Next (CustomError BAD_REQUEST
                      ''Fields are required (name, username, password, email)''), s))
     \<and> status_number CONFLICT = 409 \<and> status_number BAD_REQUEST = 400"
proof -
  have found: "findOne_username_or_email s (text_of un) (text_of em) \<noteq> None"
    using assms by (auto simp: findOne_None_iff)
  have c1: "truthy n \<and> truthy un \<and> truthy pw \<and> truthy em
          \<and> text_of un = lc (text_of un) \<and> \<not> ws (text_of un)
        \<longrightarrow> registerUser lc ws g i salt s n un pw em =
             (Next (CustomError CONFLICT ''Username or email already exists''), s)"
    using found registerUser_conflict[of n un pw em lc ws s g i salt] by blast
  have c2: "truthy n \<and> truthy un \<and> truthy pw \<and> truthy em
          \<and> (text_of un \<noteq> lc (text_of un) \<or> ws (text_of un))
        \<longrightarrow> registerUser lc ws g i salt s n un pw em =
             (Next (CustomError BAD_REQUEST
                      ''Username must be lowercase and cannot contain spaces''), s)"
    using registerUser_bad_username[of n un pw em lc ws g i salt s] by blast
  have c3: "\<not> (truthy n \<and> truthy un \<and> truthy pw \<and> truthy em)
        \<longrightarrow> registerUser lc ws g i salt s n un pw em =
             (Next (CustomError BAD_REQUEST
                      ''Fields are required (name, username, password, email)''), s)"
    using registerUser_missing[of n un pw em lc ws g i salt s] by blast
  show ?thesis
    using c1 c2 c3 by simp
qed

theorem registerUser_duplicate_witness:
  "jon \<in> set (users two_users)
   \<and> username jon = ''jon''
   \<and> registerUser ascii_toLowerCase ascii_has_whitespace avatar ''65a3'' ''s3'' two_users
        (Some ''Jon Two'') (Some ''jon'') (Some ''pw456'') (Some ''fresh@x.com'')
      = (Next (CustomError CONFLICT ''Username or email already exists''), two_users)
   \<and> registerUser ascii_toLowerCase ascii_has_whitespace avatar ''65a3'' ''s3'' two_users
        (Some ''Jon Two'') (Some ''Jon'') (Some ''pw456'') (Some ''jon@x.com'')
      = (Next (CustomError BAD_REQUEST
                 ''Username must be lowercase and cannot contain spaces''), two_users)"
proof -
  have a: "jon \<in> set (users two_users)" by (simp add: two_users_def)
  have b: "username jon = text_of (Some ''jon'') \<or> email jon = text_of (Some ''fresh@x.com'')"
    by (simp add: jon_def)
  have b': "username jon = text_of (Some ''Jon'') \<or> email jon = text_of (Some ''jon@x.com'')"
    by (simp add: jon_def)
  show ?thesis
    using registerUser_duplicate[OF a b, where n = "Some ''Jon Two''" and pw = "Some ''pw456''"
        and lc = ascii_toLowerCase and ws = ascii_has_whitespace
        and g = avatar and i = "''65a3''" and salt = "''s3''"]
      registerUser_duplicate[OF a b', where n = "Some ''Jon Two''" and pw = "Some ''pw456''"
        and lc = ascii_toLowerCase and ws = ascii_has_whitespace
        and g = avatar and i = "''65a3''" and salt = "''s3''"] a
    by (simp add: lower_jon no_space_jon jon_def)
qed

section \<open>Properties of loginUser\<close>

lemma three_hundred_hours: "timespan_seconds ''300h'' = Some (300 * 3600)"
  by (simp add: timespan_seconds_def digit_value_def)

lemma findOne_username_Some:
  "findOne_username s un = Some u \<Longrightarrow> u \<in> set (users s) \<and> username u = un"
  by (auto simp: findOne_username_def find_Some_iff)

text \<open>
  Claim C8. Whenever the login handler responds, the user found under the submitted
  username has a password matching the submitted one, the status is 200, and the token
  is signed with the key over that user's identifier and username, with the expiry
  \<open>300h\<close>, which stands for 300 hours.
\<close>
theorem loginUser_token:
  assumes "loginUser key s un pw = Respond st b"
  shows "\<exists>u k. findOne_username s un = Some u \<and> u \<in> set (users s) \<and> username u = un
           \<and> bcrypt_compare pw (password u)
           \<and> key = Some k \<and> k \<noteq> []
           \<and> st = OK
           \<and> b = LoginJson (sanitized u)
                  \<lparr>payload_id = uid u, payload_username = username u,
                   signing_key = k, expiresIn = ''300h''\<rparr>
           \<and> timespan_seconds ''300h'' = Some (300 * 3600)"
proof (cases "findOne_username s un")
  case None
  then show ?thesis using assms by (simp add: loginUser_def)
next
  case (Some u)
  have match: "bcrypt_compare pw (password u)"
    using assms Some by (auto simp: loginUser_def split: if_splits)
  have signed: "truthy key"
    using assms Some match by (auto simp: loginUser_def jwt_sign_def split: if_splits)
  then obtain k where k: "key = Some k" "k \<noteq> []"
    by (cases key) auto
  have "loginUser key s un pw =
      Respond OK (LoginJson (sanitized u)
        \<lparr>payload_id = uid u, payload_username = username u, signing_key = k, expiresIn = ''300h''\<rparr>)"
    using Some match k by (simp add: loginUser_def jwt_sign_def)
  then show ?thesis
    using assms Some match k findOne_username_Some[OF Some] three_hundred_hours by auto
qed

theorem loginUser_token_witness:
  "loginUser (Some ''k3y'') two_users ''jon'' ''pw123'' =
     Respond OK (LoginJson (sanitized jon)
       \<lparr>payload_id = ''65a1'', payload_username = ''jon'', signing_key = ''k3y'', expiresIn = ''300h''\<rparr>)"
proof -
  have run: "loginUser (Some ''k3y'') two_users ''jon'' ''pw123'' =
     Respond OK (LoginJson (sanitized jon)
       \<lparr>payload_id = ''65a1'', payload_username = ''jon'', signing_key = ''k3y'', expiresIn = ''300h''\<rparr>)"
    by (simp add: loginUser_def findOne_username_def two_users_def jon_def jwt_sign_def)
  from loginUser_token[OF run] show ?thesis
    using run by simp
qed

section \<open>Properties of updateUser\<close>

lemma updateUser_absent:
  "findById s i = None \<Longrightarrow>
   updateUser s i file n un em = (Next (CustomError NOT_FOUND ''User not found''), s)"
  by (simp add: updateUser_def)

lemma updateUser_present:
  "findById s i = Some u \<Longrightarrow>
   updateUser s i file n un em = (Next (ReferenceError ''password is not defined''), s)"
  by (simp add: updateUser_def)

lemma updateUser_assign_fields:
  "name (updateUser_assign file n un em u) = (if truthy n then text_of n else name u)"
  "username (updateUser_assign file n un em u) = (if truthy un then text_of un else username u)"
  "email (updateUser_assign file n un em u) = (if truthy em then text_of em else email u)"
  "profilePicture (updateUser_assign file n un em u) =
     (case file of None \<Rightarrow> profilePicture u | Some path \<Rightarrow> path)"
  "uid (updateUser_assign file n un em u) = uid u"
  "password (updateUser_assign file n un em u) = password u"
  by (simp_all add: updateUser_assign_def Let_def split: option.splits)

text \<open>
  Claim C3. The handler is to apply the provided fields to the stored user. With jon
  stored and a request that provides the name \<open>Jonathan\<close>, the assignments give the
  in-memory document the new name, but the handler then forwards the
  \<open>ReferenceError\<close> of line 129 and the store is what it was: jon is still named
  \<open>Jon\<close>.
\<close>
theorem updateUser_loses_patch:
  "findById two_users ''65a1'' = Some jon
   \<and> name jon = ''Jon''
   \<and> name (updateUser_assign None (Some ''Jonathan'') None None jon) = ''Jonathan''
   \<and> updateUser two_users ''65a1'' None (Some ''Jonathan'') None None
       = (Next (ReferenceError ''password is not defined''), two_users)
   \<and> map name (users (snd (updateUser two_users ''65a1'' None (Some ''Jonathan'') None None)))
       = [''Jon'', ''Amy'']"
proof -
  have f: "findById two_users ''65a1'' = Some jon"
    by (simp add: findById_def two_users_def jon_def)
  have n: "map name (users two_users) = [''Jon'', ''Amy'']"
    by (simp add: two_users_def jon_def amy_def)
  show ?thesis
    using f n by (simp add: updateUser_present[OF f] updateUser_assign_fields jon_def)
qed

section \<open>Properties of findUsers\<close>

text \<open>
  The search by username answers 404 when it finds nobody (lines 171 to 175): with jon
  and amy stored, jon's search for \<open>zed\<close> matches no other user and is answered with
  \<open>No users found\<close>, not with an empty list.
\<close>
theorem findUsers_search_counterexample:
  "filter (\<lambda>u. literal_regex_i ''zed'' (username u) \<and> uid u \<noteq> ''65a1'') (users two_users) = []
   \<and> findUsers literal_regex_i two_users ''65a1'' None (Some ''zed'')
       = Respond NOT_FOUND (Message ''No users found'')
   \<and> findUsers literal_regex_i two_users ''65a1'' None (Some ''zed'') \<noteq> Respond OK (UsersJson [])
   \<and> findUsers_request hex24_cast literal_regex_i two_users ''65a1'' None (Some ''zed'')
       = Respond NOT_FOUND (Message ''No users found'')"
proof -
  have a: "\<not> literal_regex_i ''zed'' ''amy''" "\<not> literal_regex_i ''zed'' ''jon''"
    by (simp_all add: literal_regex_i_def ascii_toLowerCase_def ascii_lower_char_def)
  have b: "filter (\<lambda>u. literal_regex_i ''zed'' (username u) \<and> uid u \<noteq> ''65a1'') (users two_users) = []"
    by (simp add: two_users_def jon_def amy_def a)
  show ?thesis
    using b by (simp add: findUsers_def findUsers_request_def)
qed

text \<open>On a \<open>userId\<close> that the cast leaves as it is, \<open>findUsers_request\<close> is
  \<open>findUsers\<close>; so it is when \<open>userId\<close> is absent or empty.\<close>

lemma findUsers_request_canonical:
  assumes "cast i = Some i" and "i \<noteq> []"
  shows "findUsers_request cast rx s caller (Some i) un = findUsers rx s caller (Some i) un"
  using assms by (simp add: findUsers_request_def findUsers_def Let_def split: option.splits)

lemma findUsers_request_other_modes:
  assumes "\<not> truthy userId"
  shows "findUsers_request cast rx s caller userId un = findUsers rx s caller userId un"
  using assms by (simp add: findUsers_request_def)

lemma hex24_cast_refuses: "hex24_cast ''zz'' = None"
  by (simp add: hex24_cast_def)

lemma hex24_cast_other:
  "hex24_cast ''0123456789abcdef01234567'' = Some ''0123456789abcdef01234567''"
  by (simp add: hex24_cast_def hex_digit_def ascii_toLowerCase_def ascii_lower_char_def)

text \<open>
  Claim C6, as amended. Whatever the store's cast and regular-expression test are, when
  nothing matches: the lookup by id answers 404 (\<open>User not found\<close>) for a string that the
  store casts to an object id no user has, and forwards the store's cast error, writing
  no response, for a string that is no object id; the search by username answers 404
  as well (\<open>No users found\<close>); and only the listing of all users but the caller answers
  200 with an empty list.
\<close>
theorem findUsers_request_nothing_found:
  "(truthy userId \<and> cast (text_of userId) = Some i \<and> findById s i = None
      \<longrightarrow> findUsers_request cast rx s caller userId un
            = Respond NOT_FOUND (Message ''User not found''))
   \<and> (truthy userId \<and> cast (text_of userId) = None
      \<longrightarrow> findUsers_request cast rx s caller userId un = Next (CastError (text_of userId)))
   \<and> (\<not> truthy userId \<and> truthy un
        \<and> filter (\<lambda>u. rx (text_of un) (username u) \<and> uid u \<noteq> caller) (users s) = []
      \<longrightarrow> findUsers_request cast rx s caller userId un
            = Respond NOT_FOUND (Message ''No users found''))
   \<and> (\<not> truthy userId \<and> \<not> truthy un \<and> filter (\<lambda>u. uid u \<noteq> caller) (users s) = []
      \<longrightarrow> findUsers_request cast rx s caller userId un = Respond OK (UsersJson []))
   \<and> status_number NOT_FOUND = 404 \<and> status_number OK = 200"
  by (simp add: findUsers_request_def findUsers_def)

theorem findUsers_request_nothing_found_witness:
  "findUsers_request hex24_cast literal_regex_i kim_alone ''65a1b2c3d4e5f60718293a4b''
       (Some ''0123456789abcdef01234567'') None
      = Respond NOT_FOUND (Message ''User not found'')
   \<and> findUsers_request hex24_cast literal_regex_i kim_alone ''65a1b2c3d4e5f60718293a4b''
       (Some ''zz'') None
      = Next (CastError ''zz'')
   \<and> findUsers_request hex24_cast literal_regex_i two_users ''65a1'' None (Some ''zed'')
      = Respond NOT_FOUND (Message ''No users found'')
   \<and> findUsers_request hex24_cast literal_regex_i empty_store ''65a1'' None None
      = Respond OK (UsersJson [])"
proof -
  have a: "truthy (Some ''0123456789abcdef01234567'')
     \<and> hex24_cast (text_of (Some ''0123456789abcdef01234567'')) = Some ''0123456789abcdef01234567''
     \<and> findById kim_alone ''0123456789abcdef01234567'' = None"
    by (simp add: hex24_cast_other findById_def kim_alone_def kim_def)
  have a': "truthy (Some ''zz'') \<and> hex24_cast (text_of (Some ''zz'')) = None"
    by (simp add: hex24_cast_refuses)
  have z: "\<not> literal_regex_i ''zed'' ''amy''" "\<not> literal_regex_i ''zed'' ''jon''"
    by (simp_all add: literal_regex_i_def ascii_toLowerCase_def ascii_lower_char_def)
  have b: "\<not> truthy None \<and> truthy (Some ''zed'')
     \<and> filter (\<lambda>u. literal_regex_i (text_of (Some ''zed'')) (username u) \<and> uid u \<noteq> ''65a1'')
          (users two_users) = []"
    by (simp add: two_users_def jon_def amy_def z)
  have c: "\<not> truthy None \<and> \<not> truthy None
     \<and> filter (\<lambda>u. uid u \<noteq> ''65a1'') (users empty_store) = []"
    by (simp add: empty_store_def)
  show ?thesis
    using a a' b c
      findUsers_request_nothing_found[where userId = "Some ''0123456789abcdef01234567''"
        and i = "''0123456789abcdef01234567''" and s = kim_alone and cast = hex24_cast
        and rx = literal_regex_i and caller = "''65a1b2c3d4e5f60718293a4b''" and un = None]
      findUsers_request_nothing_found[where userId = "Some ''zz''" and s = kim_alone
        and cast = hex24_cast and rx = literal_regex_i
        and caller = "''65a1b2c3d4e5f60718293a4b''" and un = None]
      findUsers_request_nothing_found[where userId = None and s = two_users
        and cast = hex24_cast and rx = literal_regex_i and caller = "''65a1''"
        and un = "Some ''zed''"]
      findUsers_request_nothing_found[where userId = None and s = empty_store
        and cast = hex24_cast and rx = literal_regex_i and caller = "''65a1''" and un = None]
    by simp
qed

text \<open>
  Claim C10. For the identifier of a stored user, the lookup by id answers 200 with the
  user, the lists and the posts; a following list or a follower list that has no
  document appears as the empty array, and one that has a document appears as it is.
\<close>
theorem findUsers_by_id_missing_lists:
  assumes "findById s i = Some u" and "i \<noteq> []"
  shows "\<exists>fg fl. findUsers rx s caller (Some i) un
             = Respond OK (ProfileJson (sanitized u) fg fl (getPosts s u))
     \<and> (following s i = None \<longrightarrow> fg = [])
     \<and> (followers s i = None \<longrightarrow> fl = [])
     \<and> (\<forall>l. following s i = Some l \<longrightarrow> fg = l)
     \<and> (\<forall>l. followers s i = Some l \<longrightarrow> fl = l)"
  using assms by (simp add: findUsers_def Let_def split: option.splits)

theorem findUsers_by_id_missing_lists_witness:
  "findById two_users ''65a2'' = Some amy \<and> ''65a2'' \<noteq> []
   \<and> following two_users ''65a2'' = None \<and> followers two_users ''65a2'' = None
   \<and> findUsers literal_regex_i two_users ''65a1'' (Some ''65a2'') None
       = Respond OK (ProfileJson (sanitized amy) [] [] [])"
proof -
  have f: "findById two_users ''65a2'' = Some amy"
    by (simp add: findById_def two_users_def jon_def amy_def)
  have ne: "''65a2'' \<noteq> []" by simp
  have nl: "following two_users ''65a2'' = None" "followers two_users ''65a2'' = None"
    by (simp_all add: two_users_def no_lists_def)
  have p: "getPosts two_users amy = []"
    by (simp add: getPosts_def two_users_def)
  from findUsers_by_id_missing_lists[OF f ne, where rx = literal_regex_i
      and caller = "''65a1''" and un = None]
  show ?thesis using f nl p by auto
qed

end
